theory Spec2Isabelle
  imports Main "HOL-Library.Code_Target_Numeral"
begin

section \<open>Python values used by \<open>models.py\<close>\<close>

text \<open>
  The module builds its two classes from raw text fields with the built-ins \<open>str\<close>,
  \<open>float\<close>, the comparison \<open>==\<close>, the conversion \<open>!r\<close> and the format
  specifications \<open>.2f\<close> and \<open>.3f\<close>. A Python \<open>str\<close> is modelled as a
  \<^typ>\<open>string\<close>, each \<^typ>\<open>char\<close> standing for the code point of the same number
  (U+0000 to U+00FF). Exceptions are values: every operation that can raise returns
  \<open>error + 'a\<close>, with \<open>Inl\<close> the exception that propagates to the caller. The
  only exception these operations raise is \<open>ValueError\<close>; it carries its message.
\<close>

datatype error = ValueError string

subsection \<open>Text\<close>

definition py_str :: "string \<Rightarrow> string" where
  \<comment> \<open>\<open>str(x)\<close> of a value that is already a \<open>str\<close>\<close>
  "py_str s = s"

definition ascii_digit :: "char \<Rightarrow> bool" where
  "ascii_digit c = (c \<in> set ''0123456789'')"

definition digit_val :: "char \<Rightarrow> nat" where
  "digit_val c = of_char c - 48"

definition digit_char :: "nat \<Rightarrow> char" where
  "digit_char d = ''0123456789'' ! (d mod 10)"

fun digits_val :: "nat \<Rightarrow> string \<Rightarrow> nat" where
  "digits_val acc [] = acc"
| "digits_val acc (c # cs) = digits_val (10 * acc + digit_val c) cs"

function decimal :: "nat \<Rightarrow> string" where
  "decimal n = (if n < 10 then [digit_char n] else decimal (n div 10) @ [digit_char n])"
  by pat_completeness auto
termination
  by (relation "measure id") auto

declare decimal.simps [simp del]

definition zero_pad :: "nat \<Rightarrow> string \<Rightarrow> string" where
  \<comment> \<open>left padding with zeros to a minimum width, as \<open>%02d\<close> and \<open>%04d\<close> do\<close>
  "zero_pad w s = replicate (w - length s) (CHR ''0'') @ s"

definition hex_char :: "nat \<Rightarrow> char" where
  "hex_char d = ''0123456789abcdef'' ! (d mod 16)"

definition printable :: "char \<Rightarrow> bool" where
  \<comment> \<open>\<open>str.isprintable\<close> on the code points below 256\<close>
  "printable c = (let k = (of_char c :: nat) in
     (32 \<le> k \<and> k < 127) \<or> (160 < k \<and> k \<noteq> 173))"

definition repr_char :: "char \<Rightarrow> char \<Rightarrow> string" where
  \<comment> \<open>one character of \<open>repr\<close> of a \<open>str\<close> delimited by \<open>quote\<close>\<close>
  "repr_char quote c =
     (if c = quote \<or> c = CHR 0x5C then [CHR 0x5C, c]
      else if c = CHR 0x09 then [CHR 0x5C, CHR ''t'']
      else if c = CHR 0x0A then [CHR 0x5C, CHR ''n'']
      else if c = CHR 0x0D then [CHR 0x5C, CHR ''r'']
      else if printable c then [c]
      else [CHR 0x5C, CHR ''x'', hex_char (of_char c div 16), hex_char (of_char c)])"

definition repr_str :: "string \<Rightarrow> string" where
  \<comment> \<open>\<open>repr(s)\<close>: single quotes, unless the text has a single quote and no double quote\<close>
  "repr_str s =
     (let quote = (if CHR 0x27 \<in> set s \<and> CHR 0x22 \<notin> set s then CHR 0x22 else CHR 0x27)
      in quote # concat (map (repr_char quote) s) @ [quote])"

definition repr_opt_str :: "string option \<Rightarrow> string" where
  "repr_opt_str x = (case x of None \<Rightarrow> ''None'' | Some s \<Rightarrow> repr_str s)"

definition repr_bool :: "bool \<Rightarrow> string" where
  "repr_bool b = (if b then ''True'' else ''False'')"

subsection \<open>Floats\<close>

text \<open>
  A Python \<open>float\<close> is an IEEE 754 double: a sign with a magnitude \<open>m * 2 ^ e\<close>
  (\<open>m < 2 ^ 53\<close>, \<open>- 1074 \<le> e \<le> 971\<close>), an infinity, or not-a-number.
\<close>

datatype pyfloat = Finite bool nat int | Infinity bool | NaN

fun float_eq :: "pyfloat \<Rightarrow> pyfloat \<Rightarrow> bool" where
  \<comment> \<open>\<open>x == y\<close>: not-a-number is equal to nothing, itself included\<close>
  "float_eq NaN _ = False"
| "float_eq _ NaN = False"
| "float_eq (Infinity s) (Infinity t) = (s = t)"
| "float_eq (Infinity s) (Finite t m e) = False"
| "float_eq (Finite s m e) (Infinity t) = False"
| "float_eq (Finite s m e) (Finite t n f) =
     ((m = 0 \<and> n = 0) \<or>
      (s = t \<and> m * 2 ^ nat (e - min e f) = n * 2 ^ nat (f - min e f)))"

definition rne :: "nat \<Rightarrow> nat \<Rightarrow> nat" where
  \<comment> \<open>\<open>n / d\<close> rounded to the nearest integer, ties to even\<close>
  "rne n d = (let q = n div d; r = n mod d in
     if 2 * r < d then q else if d < 2 * r then q + 1
     else if even q then q else q + 1)"

function bit_length :: "nat \<Rightarrow> nat" where
  "bit_length n = (if n = 0 then 0 else Suc (bit_length (n div 2)))"
  by pat_completeness auto
termination
  by (relation "measure id") auto

declare bit_length.simps [simp del]

definition scaled :: "nat \<Rightarrow> nat \<Rightarrow> int \<Rightarrow> nat" where
  \<comment> \<open>\<open>n / (d * 2 ^ e)\<close> rounded to the nearest integer, ties to even\<close>
  "scaled n d e = (if 0 \<le> e then rne n (d * 2 ^ nat e) else rne (n * 2 ^ nat (- e)) d)"

definition round_to_double :: "nat \<Rightarrow> nat \<Rightarrow> (nat \<times> int) option" where
  \<comment> \<open>the double nearest to \<open>n / d\<close> as mantissa and exponent; \<open>None\<close> on overflow\<close>
  "round_to_double n d =
     (if n = 0 then Some (0, 0)
      else
        let e1 = int (bit_length n) - int (bit_length d);
            e2 = (if (if 0 \<le> e1 then d * 2 ^ nat e1 \<le> n else d \<le> n * 2 ^ nat (- e1))
                  then e1 - 52 else e1 - 53);
            e = max e2 (- 1074);
            m = scaled n d e
        in if m = 2 ^ 53
           then (if 971 < e + 1 then None else Some (2 ^ 52, e + 1))
           else (if 971 < e then None else Some (m, e)))"

definition py_isspace :: "char \<Rightarrow> bool" where
  \<comment> \<open>the white space \<open>float\<close> strips: tab to carriage return, space, U+0085, U+00A0\<close>
  "py_isspace c = ((of_char c :: nat) \<in> {9, 10, 11, 12, 13, 32, 133, 160})"

definition strip_ws :: "string \<Rightarrow> string" where
  "strip_ws s = rev (dropWhile py_isspace (rev (dropWhile py_isspace s)))"

fun strip_underscores :: "char \<Rightarrow> string \<Rightarrow> string option" where
  \<comment> \<open>an underscore is accepted between two digits only, and dropped\<close>
  "strip_underscores prev [] = (if prev = CHR ''_'' then None else Some [])"
| "strip_underscores prev (c # cs) =
     (if c = CHR ''_''
      then (if ascii_digit prev then strip_underscores c cs else None)
      else if prev = CHR ''_'' \<and> \<not> ascii_digit c then None
      else map_option ((#) c) (strip_underscores c cs))"

fun split_sign :: "string \<Rightarrow> bool \<times> string" where
  "split_sign [] = (False, [])"
| "split_sign (c # cs) =
     (if c = CHR ''-'' then (True, cs) else if c = CHR ''+'' then (False, cs)
      else (False, c # cs))"

definition lower :: "char \<Rightarrow> char" where
  "lower c = (let k = (of_char c :: nat) in if 65 \<le> k \<and> k \<le> 90 then char_of (k + 32) else c)"

definition parse_exponent :: "string \<Rightarrow> int option" where
  \<comment> \<open>what follows the mantissa: nothing, or \<open>e\<close>, an optional sign and digits\<close>
  "parse_exponent s =
     (case s of
        [] \<Rightarrow> Some 0
      | c # cs \<Rightarrow>
          if c = CHR ''e'' \<or> c = CHR ''E''
          then (case split_sign cs of
                  (neg, ds) \<Rightarrow>
                    if ds \<noteq> [] \<and> list_all ascii_digit ds
                    then Some (if neg then - int (digits_val 0 ds) else int (digits_val 0 ds))
                    else None)
          else None)"

definition parse_decimal :: "string \<Rightarrow> (nat \<times> int) option" where
  \<comment> \<open>digits, an optional point and digits, an optional exponent: the value is
      \<open>n * 10 ^ x\<close> for the result \<open>(n, x)\<close>\<close>
  "parse_decimal s =
     (let ip = takeWhile ascii_digit s;
          r1 = dropWhile ascii_digit s;
          (fp, r2) = (case r1 of
                        [] \<Rightarrow> ([], r1)
                      | c # t \<Rightarrow> if c = CHR ''.''
                                 then (takeWhile ascii_digit t, dropWhile ascii_digit t)
                                 else ([], r1))
      in if ip @ fp = [] then None
         else (case parse_exponent r2 of
                 None \<Rightarrow> None
               | Some x \<Rightarrow> Some (digits_val 0 (ip @ fp), x - int (length fp))))"

definition float_error :: "string \<Rightarrow> error" where
  \<comment> \<open>what \<open>float(s)\<close> raises on a text it cannot convert\<close>
  "float_error s = ValueError (''could not convert string to float: '' @ repr_str s)"

definition py_float :: "string \<Rightarrow> error + pyfloat" where
  \<comment> \<open>\<open>float(s)\<close> of a \<open>str\<close>: \<open>ValueError\<close> when the text is no float literal\<close>
  "py_float s =
     (case strip_underscores (CHR 0x00) (strip_ws s) of
        None \<Rightarrow> Inl (float_error s)
      | Some u \<Rightarrow>
          (case split_sign u of
             (neg, body) \<Rightarrow>
               if map lower body = ''inf'' \<or> map lower body = ''infinity''
               then Inr (Infinity neg)
               else if map lower body = ''nan'' then Inr NaN
               else (case parse_decimal body of
                       None \<Rightarrow> Inl (float_error s)
                     | Some (n, x) \<Rightarrow>
                         (case (if 0 \<le> x then round_to_double (n * 10 ^ nat x) 1
                                else round_to_double n (10 ^ nat (- x))) of
                            None \<Rightarrow> Inr (Infinity neg)
                          | Some (m, e) \<Rightarrow> Inr (Finite neg m e)))))"

definition format_f :: "nat \<Rightarrow> pyfloat \<Rightarrow> string" where
  \<comment> \<open>the format specification \<open>.pf\<close>: the exact value rounded to \<open>p\<close> decimals, ties
      to even\<close>
  "format_f p x =
     (case x of
        NaN \<Rightarrow> ''nan''
      | Infinity s \<Rightarrow> (if s then ''-inf'' else ''inf'')
      | Finite s m e \<Rightarrow>
          (let n = (if 0 \<le> e then m * 2 ^ nat e * 10 ^ p
                    else rne (m * 10 ^ p) (2 ^ nat (- e)))
           in (if s then ''-'' else '''') @ decimal (n div 10 ^ p) @
              (if p = 0 then '''' else CHR ''.'' # zero_pad p (decimal (n mod 10 ^ p)))))"

subsection \<open>Dates and times\<close>

text \<open>
  Modelled from the spec: the helpers \<open>cd_to_datetime\<close> and \<open>datetime_to_str\<close>
  that \<open>models.py\<close> imports from \<open>helpers\<close>, a module whose source is not at
  hand. The spec describes them as a parser of the compact date-time text of the data
  set (date, hour and minute, no seconds; \<open>1900-Jan-01 12:00\<close> in its scenario) into a
  naive UTC \<open>datetime\<close>, rejecting malformed text, and as a formatter of a
  \<open>datetime\<close> to the canonical text \<open>YYYY-MM-DD HH:MM\<close>. The constructor of
  \<open>CloseApproach\<close> below takes the parser as a parameter, so what is proved of it holds
  for every parser; \<open>cd_to_datetime\<close> is the instance used on concrete inputs.
\<close>

record datetime =
  year :: nat
  month :: nat
  day :: nat
  hour :: nat
  minute :: nat
  second :: nat
  microsecond :: nat

definition month_names :: "string list" where
  "month_names = [''Jan'', ''Feb'', ''Mar'', ''Apr'', ''May'', ''Jun'',
                  ''Jul'', ''Aug'', ''Sep'', ''Oct'', ''Nov'', ''Dec'']"

fun month_number :: "nat \<Rightarrow> string list \<Rightarrow> string \<Rightarrow> nat option" where
  "month_number k [] s = None"
| "month_number k (m # ms) s = (if s = m then Some k else month_number (Suc k) ms s)"

definition days_in_month :: "nat \<Rightarrow> nat \<Rightarrow> nat" where
  "days_in_month y m =
     (if m = 2 then (if y mod 4 = 0 \<and> (y mod 100 \<noteq> 0 \<or> y mod 400 = 0) then 29 else 28)
      else if m \<in> {4, 6, 9, 11} then 30 else 31)"

definition valid_datetime :: "datetime \<Rightarrow> bool" where
  \<comment> \<open>the ranges a \<open>datetime\<close> value keeps\<close>
  "valid_datetime dt =
     (1 \<le> year dt \<and> year dt \<le> 9999 \<and> 1 \<le> month dt \<and> month dt \<le> 12 \<and>
      1 \<le> day dt \<and> day dt \<le> days_in_month (year dt) (month dt) \<and>
      hour dt < 24 \<and> minute dt < 60 \<and> second dt < 60 \<and> microsecond dt < 1000000)"

definition time_error :: "string \<Rightarrow> error" where
  \<comment> \<open>Modelled from the spec: the error of a malformed time text. The spec gives no
      message; this one names the rejected text\<close>
  "time_error s =
     ValueError (''time data '' @ repr_str s @ '' does not match the date-time format'')"

definition cd_to_datetime :: "string \<Rightarrow> error + datetime" where
  \<comment> \<open>Modelled from the spec: text of the form \<open>YYYY-Mon-DD HH:MM\<close> to a \<open>datetime\<close>
      with no seconds; \<open>ValueError\<close> on anything else\<close>
  "cd_to_datetime s =
     (if length s = 17 \<and> s ! 4 = CHR ''-'' \<and> s ! 8 = CHR ''-'' \<and> s ! 11 = CHR '' '' \<and>
         s ! 14 = CHR '':'' \<and> list_all ascii_digit (take 4 s) \<and>
         list_all ascii_digit (take 2 (drop 9 s)) \<and>
         list_all ascii_digit (take 2 (drop 12 s)) \<and>
         list_all ascii_digit (take 2 (drop 15 s))
      then (case month_number 1 month_names (take 3 (drop 5 s)) of
              None \<Rightarrow> Inl (time_error s)
            | Some m \<Rightarrow>
                (let dt = \<lparr>year = digits_val 0 (take 4 s), month = m,
                           day = digits_val 0 (take 2 (drop 9 s)),
                           hour = digits_val 0 (take 2 (drop 12 s)),
                           minute = digits_val 0 (take 2 (drop 15 s)),
                           second = 0, microsecond = 0\<rparr>
                 in if valid_datetime dt then Inr dt else Inl (time_error s)))
      else Inl (time_error s))"

definition datetime_to_str :: "datetime \<Rightarrow> string" where
  \<comment> \<open>Modelled from the spec: a \<open>datetime\<close> as \<open>YYYY-MM-DD HH:MM\<close>, each field padded
      with zeros, seconds and microseconds left out\<close>
  "datetime_to_str dt =
     zero_pad 4 (decimal (year dt)) @ ''-'' @ zero_pad 2 (decimal (month dt)) @ ''-'' @
     zero_pad 2 (decimal (day dt)) @ '' '' @ zero_pad 2 (decimal (hour dt)) @ '':'' @
     zero_pad 2 (decimal (minute dt))"

section \<open>The class \<open>NearEarthObject\<close>\<close>

text \<open>
  An object is the record of its attributes. \<open>approaches\<close> holds the identities of the
  linked \<open>CloseApproach\<close> objects; \<open>priv_fullname\<close> is the attribute \<open>_fullname\<close>,
  \<open>None\<close> as long as the object does not have it. A method that assigns to an attribute
  returns the object it leaves behind next to its result.
\<close>

type_synonym ref = nat

record NearEarthObject =
  designation :: string
  name :: "string option"
  diameter :: pyfloat
  hazardous :: bool
  approaches :: "ref list"
  priv_fullname :: "string option"

definition NearEarthObject_init ::
  "string \<Rightarrow> string \<Rightarrow> string \<Rightarrow> string \<Rightarrow> error + NearEarthObject" where
  \<comment> \<open>\<open>__init__(self, designation, name, diameter, hazardous)\<close> on raw text fields\<close>
  "NearEarthObject_init designation0 name0 diameter0 hazardous0 =
     (case (if diameter0 \<noteq> [] then py_float diameter0 else py_float ''nan'') of
        Inl e \<Rightarrow> Inl e
      | Inr d \<Rightarrow>
          Inr \<lparr>designation = py_str designation0,
               name = (if name0 \<noteq> [] then Some (py_str name0) else None),
               diameter = d,
               hazardous = (if hazardous0 = ''Y'' then True else False),
               approaches = [],
               priv_fullname = None\<rparr>)"

definition fullname :: "NearEarthObject \<Rightarrow> string \<times> NearEarthObject" where
  \<comment> \<open>the property \<open>fullname\<close>: assigns \<open>self._fullname\<close> and returns it\<close>
  "fullname self =
     (let self' = (case name self of
                     Some n \<Rightarrow> self\<lparr>priv_fullname := Some (designation self @ '' ('' @ n @ '')'')\<rparr>
                   | None \<Rightarrow> self\<lparr>priv_fullname := Some (designation self)\<rparr>)
      in (the (priv_fullname self'), self'))"

definition NearEarthObject_str :: "NearEarthObject \<Rightarrow> string \<times> NearEarthObject" where
  \<comment> \<open>\<open>__str__\<close>; \<open>float('nan')\<close> is \<open>NaN\<close>, and the comparison is \<open>==\<close>\<close>
  "NearEarthObject_str self =
     (case fullname self of
        (fn, self') \<Rightarrow>
          (''The NearEarthObject '' @ [CHR 0x27] @ fn @ [CHR 0x27] @ '' has '' @
           (if float_eq (diameter self') NaN then ''an unknown diameter''
            else ''a diameter of '' @ format_f 3 (diameter self')) @
           '' km and '' @ (if hazardous self' then ''is'' else ''is not'') @
           '' potentially hazardous.'', self'))"

definition NearEarthObject_repr :: "NearEarthObject \<Rightarrow> string" where
  \<comment> \<open>\<open>__repr__\<close>\<close>
  "NearEarthObject_repr self =
     ''NearEarthObject(designation='' @ repr_str (designation self) @
     '', name='' @ repr_opt_str (name self) @
     '', diameter='' @ format_f 3 (diameter self) @
     '', hazardous='' @ repr_bool (hazardous self) @ '')''"

section \<open>The class \<open>CloseApproach\<close>\<close>

text \<open>
  \<open>priv_designation\<close> is the attribute \<open>_designation\<close>. \<open>neo\<close> is the linked
  \<open>NearEarthObject\<close> as this object reaches it, \<open>None\<close> before linking.
\<close>

record CloseApproach =
  priv_designation :: string
  time :: datetime
  distance :: pyfloat
  velocity :: pyfloat
  neo :: "NearEarthObject option"

definition CloseApproach_init ::
  "(string \<Rightarrow> error + datetime) \<Rightarrow> string \<Rightarrow> string \<Rightarrow> string \<Rightarrow> string
     \<Rightarrow> error + CloseApproach" where
  \<comment> \<open>\<open>__init__(self, designation, time, distance, velocity)\<close> on raw text fields, with
      the imported date parser as first argument\<close>
  "CloseApproach_init parse_time designation0 time0 distance0 velocity0 =
     (case parse_time time0 of
        Inl e \<Rightarrow> Inl e
      | Inr t \<Rightarrow>
          (case py_float distance0 of
             Inl e \<Rightarrow> Inl e
           | Inr d \<Rightarrow>
               (case py_float velocity0 of
                  Inl e \<Rightarrow> Inl e
                | Inr v \<Rightarrow>
                    Inr \<lparr>priv_designation = py_str designation0, time = t,
                         distance = d, velocity = v, neo = None\<rparr>)))"

definition time_str :: "CloseApproach \<Rightarrow> string" where
  \<comment> \<open>the property \<open>time_str\<close>\<close>
  "time_str self = datetime_to_str (time self)"

definition CloseApproach_str :: "CloseApproach \<Rightarrow> string \<times> CloseApproach" where
  \<comment> \<open>\<open>__str__\<close>: reading \<open>self.neo.fullname\<close> assigns to the linked object\<close>
  "CloseApproach_str self =
     (case (case neo self of
              None \<Rightarrow> (''None'', None)
            | Some n \<Rightarrow> (case fullname n of (fn, n') \<Rightarrow> (fn, Some n'))) of
        (shown, neo') \<Rightarrow>
          (''At '' @ time_str self @ '', '' @ [CHR 0x27] @ shown @ [CHR 0x27] @
           '' approaches Earth at a distance of '' @ format_f 2 (distance self) @
           '' au and a velocity of '' @ format_f 2 (velocity self) @ '' km/s.'',
           self\<lparr>neo := neo'\<rparr>))"

definition CloseApproach_repr :: "CloseApproach \<Rightarrow> string" where
  \<comment> \<open>\<open>__repr__\<close>\<close>
  "CloseApproach_repr self =
     ''CloseApproach(time='' @ repr_str (time_str self) @
     '', distance='' @ format_f 2 (distance self) @
     '', velocity='' @ format_f 2 (velocity self) @
     '', neo='' @ (case neo self of None \<Rightarrow> ''None'' | Some n \<Rightarrow> NearEarthObject_repr n) @
     '')''"

section \<open>Shapes of the printed text\<close>

fun matches :: "string \<Rightarrow> string \<Rightarrow> bool" where
  \<comment> \<open>a text against a pattern: \<open>d\<close> in the pattern stands for one decimal digit,
      any other character for itself\<close>
  "matches [] [] = True"
| "matches (p # ps) (c # cs) = ((if p = CHR ''d'' then ascii_digit c else c = p) \<and> matches ps cs)"
| "matches _ _ = False"

definition has_places :: "nat \<Rightarrow> string \<Rightarrow> bool" where
  \<comment> \<open>an optional minus sign, at least one digit, a point and exactly \<open>p\<close> digits\<close>
  "has_places p s =
     (let body = (case s of [] \<Rightarrow> [] | c # cs \<Rightarrow> if c = CHR ''-'' then cs else s)
      in takeWhile ascii_digit body \<noteq> [] \<and>
         (case dropWhile ascii_digit body of
            [] \<Rightarrow> False
          | c # fp \<Rightarrow> c = CHR ''.'' \<and> length fp = p \<and> list_all ascii_digit fp))"

section \<open>Objects of the scenarios\<close>

definition eros :: NearEarthObject where
  \<comment> \<open>what \<open>NearEarthObject("433", "Eros", "16.84", "N")\<close> constructs\<close>
  "eros = \<lparr>designation = ''433'', name = Some ''Eros'',
           diameter = Finite False 4740038607807447 (- 48), hazardous = False,
           approaches = [], priv_fullname = None\<rparr>"

definition neo_2020_AB :: NearEarthObject where
  \<comment> \<open>what \<open>NearEarthObject("2020 AB", "", "", "Y")\<close> constructs\<close>
  "neo_2020_AB = \<lparr>designation = ''2020 AB'', name = None, diameter = NaN,
                  hazardous = True, approaches = [], priv_fullname = None\<rparr>"

definition approach_1900 :: CloseApproach where
  \<comment> \<open>what \<open>CloseApproach("433", "1900-Jan-01 12:00", "0.15", "5.5")\<close> constructs\<close>
  "approach_1900 =
     \<lparr>priv_designation = ''433'',
      time = \<lparr>year = 1900, month = 1, day = 1, hour = 12, minute = 0, second = 0,
              microsecond = 0\<rparr>,
      distance = Finite False 5404319552844595 (- 55),
      velocity = Finite False 6192449487634432 (- 50), neo = None\<rparr>"

definition eros_linked :: NearEarthObject where
  \<comment> \<open>\<open>eros\<close> after linking to two approaches and a first read of \<open>fullname\<close>\<close>
  "eros_linked = \<lparr>designation = ''433'', name = Some ''Eros'',
                  diameter = Finite False 4740038607807447 (- 48), hazardous = False,
                  approaches = [0, 1], priv_fullname = Some ''433 (Eros)''\<rparr>"

definition approach_2020 :: CloseApproach where
  \<comment> \<open>an approach whose stored time carries seconds: 2020-03-07 23:45:30\<close>
  "approach_2020 =
     \<lparr>priv_designation = ''433'',
      time = \<lparr>year = 2020, month = 3, day = 7, hour = 23, minute = 45, second = 30,
              microsecond = 0\<rparr>,
      distance = Finite False 5404319552844595 (- 55),
      velocity = Finite False 6192449487634432 (- 50), neo = None\<rparr>"

section \<open>Facts about the built-ins\<close>

lemma py_float_nan: "py_float ''nan'' = Inr NaN"
  by code_simp

lemma py_float_empty: "py_float [] = Inl (float_error [])"
  by code_simp

lemma py_float_16_84: "py_float ''16.84'' = Inr (Finite False 4740038607807447 (- 48))"
  by code_simp

lemma py_float_0_15: "py_float ''0.15'' = Inr (Finite False 5404319552844595 (- 55))"
  by code_simp

lemma py_float_5_5: "py_float ''5.5'' = Inr (Finite False 6192449487634432 (- 50))"
  by code_simp

lemma float_eq_NaN: "float_eq x NaN = False"
  by (cases x) simp_all

section \<open>Construction and the full name\<close>

lemma fullname_value:
  "fst (fullname n) =
     (case name n of Some nm \<Rightarrow> designation n @ '' ('' @ nm @ '')'' | None \<Rightarrow> designation n)"
  by (simp add: fullname_def split: option.split)

lemma fullname_state: "snd (fullname n) = n\<lparr>priv_fullname := Some (fst (fullname n))\<rparr>"
  by (simp add: fullname_def split: option.split)

lemma NearEarthObject_init_Inr:
  "NearEarthObject_init d nm diam h = Inr n \<Longrightarrow>
     designation n = d \<and> name n = (if nm = [] then None else Some nm) \<and>
     hazardous n = (h = ''Y'') \<and> approaches n = [] \<and> priv_fullname n = None \<and>
     Inr (diameter n) = (if diam = [] then Inr NaN else py_float diam)"
  by (auto simp: NearEarthObject_init_def py_str_def py_float_nan split: sum.splits if_splits)

lemma eros_constructed: "NearEarthObject_init ''433'' ''Eros'' ''16.84'' ''N'' = Inr eros"
  by (simp add: NearEarthObject_init_def py_float_16_84 py_str_def eros_def)

lemma neo_2020_AB_constructed: "NearEarthObject_init ''2020 AB'' '''' '''' ''Y'' = Inr neo_2020_AB"
  by (simp add: NearEarthObject_init_def py_float_nan py_str_def neo_2020_AB_def)

lemma NearEarthObject_str_value:
  "fst (NearEarthObject_str n) =
     ''The NearEarthObject '' @ [CHR 0x27] @ fst (fullname n) @ [CHR 0x27] @
     '' has a diameter of '' @ format_f 3 (diameter n) @ '' km and '' @
     (if hazardous n then ''is'' else ''is not'') @ '' potentially hazardous.''"
  by (simp add: NearEarthObject_str_def fullname_def float_eq_NaN split: option.split)

lemma NearEarthObject_str_state: "snd (NearEarthObject_str n) = snd (fullname n)"
  by (simp add: NearEarthObject_str_def split: prod.split)

text \<open>
  C1. A \<open>NearEarthObject\<close> built with an empty diameter field holds not-a-number, and its
  description should say that the diameter is unknown. \<open>__str__\<close> tests
  \<open>self.diameter == float('nan')\<close>, which is false for every float, so the branch is
  never taken: the object of \<open>NearEarthObject("2020 AB", "", "", "Y")\<close> is described with
  \<open>a diameter of nan km\<close>.
\<close>

theorem unknown_diameter_described_as_nan:
  "NearEarthObject_init ''2020 AB'' '''' '''' ''Y'' = Inr neo_2020_AB \<and>
   diameter neo_2020_AB = NaN \<and>
   fst (NearEarthObject_str neo_2020_AB) =
     ''The NearEarthObject '2020 AB' has a diameter of nan km and is potentially hazardous.''"
  by (simp add: NearEarthObject_init_def py_float_nan py_str_def NearEarthObject_str_def
      fullname_def format_f_def neo_2020_AB_def)

text \<open>
  C2. When the name field is empty, the stored name is \<open>None\<close> and \<open>fullname\<close> is the
  designation alone; otherwise the stored name is \<open>str\<close> of the field and \<open>fullname\<close>
  is the designation followed by the name in parentheses.
\<close>

theorem name_and_fullname_of_constructed:
  assumes "NearEarthObject_init d nm diam h = Inr n"
  shows "(nm = [] \<longrightarrow> name n = None \<and> fst (fullname n) = d) \<and>
         (nm \<noteq> [] \<longrightarrow> name n = Some (py_str nm) \<and>
            fst (fullname n) = d @ '' ('' @ nm @ '')'')"
  using NearEarthObject_init_Inr [OF assms] by (simp add: fullname_value py_str_def)

theorem name_and_fullname_of_constructed_witness:
  "NearEarthObject_init ''433'' ''Eros'' ''16.84'' ''N'' = Inr eros \<and>
   name eros = Some ''Eros'' \<and> fst (fullname eros) = ''433 (Eros)'' \<and>
   NearEarthObject_init ''2020 AB'' '''' '''' ''Y'' = Inr neo_2020_AB \<and>
   name neo_2020_AB = None \<and> fst (fullname neo_2020_AB) = ''2020 AB''"
  using name_and_fullname_of_constructed [OF eros_constructed]
    name_and_fullname_of_constructed [OF neo_2020_AB_constructed]
  by (simp add: eros_constructed neo_2020_AB_constructed py_str_def)

text \<open>
  C3. The stored hazardous flag is true exactly when the raw flag is the text \<open>Y\<close>; for
  \<open>N\<close>, the empty text and \<open>y\<close> it is false.
\<close>

theorem hazardous_iff_Y:
  assumes "NearEarthObject_init d nm diam h = Inr n"
  shows "hazardous n = (h = ''Y'')"
  using NearEarthObject_init_Inr [OF assms] by simp

theorem hazardous_iff_Y_witness:
  "NearEarthObject_init ''2020 AB'' '''' '''' ''Y'' = Inr neo_2020_AB \<and>
   hazardous neo_2020_AB \<and>
   NearEarthObject_init ''433'' ''Eros'' ''16.84'' ''N'' = Inr eros \<and>
   \<not> hazardous eros"
  using hazardous_iff_Y [OF neo_2020_AB_constructed] hazardous_iff_Y [OF eros_constructed]
  by (simp add: neo_2020_AB_constructed eros_constructed)

section \<open>Reading the derived values\<close>

lemma CloseApproach_str_value:
  "fst (CloseApproach_str ca) =
     ''At '' @ time_str ca @ '', '' @ [CHR 0x27] @
     (case neo ca of None \<Rightarrow> ''None'' | Some n \<Rightarrow> fst (fullname n)) @ [CHR 0x27] @
     '' approaches Earth at a distance of '' @ format_f 2 (distance ca) @
     '' au and a velocity of '' @ format_f 2 (velocity ca) @ '' km/s.''"
  by (simp add: CloseApproach_str_def split: option.split prod.split)

lemma CloseApproach_str_state:
  "snd (CloseApproach_str ca) = ca\<lparr>neo := map_option (snd \<circ> fullname) (neo ca)\<rparr>"
  by (simp add: CloseApproach_str_def split: option.split prod.split)

text \<open>
  C9. The stored name of a constructed \<open>NearEarthObject\<close> is never the empty text: it
  is \<open>None\<close> when the name field is empty, and the field itself otherwise.
\<close>

theorem stored_name_never_empty:
  assumes "NearEarthObject_init d nm diam h = Inr n"
  shows "name n \<noteq> Some [] \<and> (nm = [] \<longrightarrow> name n = None) \<and> (nm \<noteq> [] \<longrightarrow> name n = Some nm)"
  using NearEarthObject_init_Inr [OF assms] by simp

theorem stored_name_never_empty_witness:
  "NearEarthObject_init ''433'' ''Eros'' ''16.84'' ''N'' = Inr eros \<and>
   name eros \<noteq> Some [] \<and> name eros = Some ''Eros'' \<and>
   NearEarthObject_init ''2020 AB'' '''' '''' ''Y'' = Inr neo_2020_AB \<and>
   name neo_2020_AB = None"
  using stored_name_never_empty [OF eros_constructed]
    stored_name_never_empty [OF neo_2020_AB_constructed]
  by (simp add: eros_constructed neo_2020_AB_constructed)

text \<open>
  C5, as the spec words it: the stored designation is always a non-empty text, also when
  the designation field is empty. The constructor stores \<open>str\<close> of the field and does
  not look at its length: an empty field gives an empty designation.
\<close>

theorem empty_designation_is_stored:
  "NearEarthObject_init '''' ''Eros'' ''16.84'' ''N'' = Inr (eros\<lparr>designation := ''''\<rparr>) \<and>
   designation (eros\<lparr>designation := ''''\<rparr>) = ''''"
  by (simp add: NearEarthObject_init_def py_float_16_84 py_str_def eros_def)

lemma designation_fullname: "designation (snd (fullname x)) = designation x"
  by (simp add: fullname_state)

lemma designation_str: "designation (snd (NearEarthObject_str x)) = designation x"
  by (simp add: NearEarthObject_str_state fullname_state)

lemma designation_approach_str:
  "map_option designation (neo (snd (CloseApproach_str ca))) = map_option designation (neo ca)"
  by (cases "neo ca") (simp_all add: CloseApproach_str_state fullname_state)

lemma designation_fullname_iterated:
  "designation (((snd \<circ> fullname) ^^ k) x) = designation x"
  by (induction k) (simp_all add: designation_fullname)

lemma designation_str_iterated:
  "designation (((snd \<circ> NearEarthObject_str) ^^ k) x) = designation x"
  by (induction k) (simp_all add: designation_str)

lemma designation_approach_str_iterated:
  "map_option designation (neo (((snd \<circ> CloseApproach_str) ^^ k) ca)) =
     map_option designation (neo ca)"
  by (induction k) (simp_all add: designation_approach_str)

text \<open>
  C5, amended: the stored designation is \<open>str\<close> of the designation field, so it is
  non-empty exactly when the field is, and no operation of the two classes changes it,
  on any object and however often it is applied: not \<open>fullname\<close>, not \<open>__str__\<close> of
  the object, not \<open>__str__\<close> of a \<open>CloseApproach\<close> linked to it (\<open>__repr__\<close>
  assigns nothing).
\<close>

theorem designation_kept:
  "(NearEarthObject_init d nm diam h = Inr n \<longrightarrow>
      designation n = py_str d \<and> (designation n \<noteq> [] \<longleftrightarrow> d \<noteq> [])) \<and>
   designation (snd (fullname x)) = designation x \<and>
   designation (snd (NearEarthObject_str x)) = designation x \<and>
   map_option designation (neo (snd (CloseApproach_str ca))) =
     map_option designation (neo ca) \<and>
   designation (((snd \<circ> fullname) ^^ k) x) = designation x \<and>
   designation (((snd \<circ> NearEarthObject_str) ^^ k) x) = designation x \<and>
   map_option designation (neo (((snd \<circ> CloseApproach_str) ^^ k) ca)) =
     map_option designation (neo ca)"
proof -
  have "NearEarthObject_init d nm diam h = Inr n \<longrightarrow>
      designation n = py_str d \<and> (designation n \<noteq> [] \<longleftrightarrow> d \<noteq> [])"
    using NearEarthObject_init_Inr [of d nm diam h n] by (simp add: py_str_def)
  then show ?thesis
    by (simp only: designation_fullname designation_str designation_approach_str
        designation_fullname_iterated designation_str_iterated
        designation_approach_str_iterated simp_thms)
qed

theorem designation_kept_witness:
  "NearEarthObject_init ''433'' ''Eros'' ''16.84'' ''N'' = Inr eros \<and>
   designation eros = ''433'' \<and>
   designation (snd (fullname eros_linked)) = ''433'' \<and>
   designation (snd (NearEarthObject_str eros_linked)) = ''433'' \<and>
   map_option designation
     (neo (snd (CloseApproach_str (approach_1900\<lparr>neo := Some eros_linked\<rparr>)))) = Some ''433'' \<and>
   designation (snd (fullname (snd (fullname eros_linked)))) = ''433'' \<and>
   designation (snd (NearEarthObject_str (snd (NearEarthObject_str eros_linked)))) = ''433'' \<and>
   map_option designation
     (neo (snd (CloseApproach_str (snd (CloseApproach_str
        (approach_1900\<lparr>neo := Some eros_linked\<rparr>)))))) = Some ''433''"
proof -
  have two: "\<And>f y. (f ^^ 2) y = f (f y)"
    by (simp add: eval_nat_numeral)
  have d: "designation eros_linked = ''433''" "designation eros = ''433''"
    by (simp_all add: eros_linked_def eros_def)
  from designation_kept
    [of "''433''" "''Eros''" "''16.84''" "''N''" eros eros_linked
      "approach_1900\<lparr>neo := Some eros_linked\<rparr>" 2]
  show ?thesis
    by (simp add: eros_constructed two d)
qed

text \<open>
  C4, as the spec words it: reading \<open>fullname\<close> leaves the attributes of the object
  as they were and introduces no cached field. The property assigns its result to
  \<open>self._fullname\<close>: the object just constructed has no such attribute, and has it
  after the first read.
\<close>

theorem fullname_read_assigns_attribute:
  "NearEarthObject_init ''433'' ''Eros'' ''16.84'' ''N'' = Inr eros \<and>
   priv_fullname eros = None \<and>
   priv_fullname (snd (fullname eros)) = Some ''433 (Eros)'' \<and>
   snd (fullname eros) \<noteq> eros"
proof -
  have a: "priv_fullname eros = None"
    by (simp add: eros_def)
  have b: "priv_fullname (snd (fullname eros)) = Some ''433 (Eros)''"
    by (simp add: fullname_def eros_def)
  from a b have "snd (fullname eros) \<noteq> eros"
    by auto
  with a b eros_constructed show ?thesis
    by simp
qed


text \<open>
  C4, amended: \<open>fullname\<close> is computed from the designation and the name at every
  read and never from the attribute \<open>_fullname\<close>, and the only effect of a read is to
  assign the result to that attribute; \<open>time_str\<close> depends on the stored time alone
  and assigns nothing.
\<close>

theorem fullname_recomputed_and_cached:
  "fst (fullname n) =
     (case name n of Some nm \<Rightarrow> designation n @ '' ('' @ nm @ '')'' | None \<Rightarrow> designation n) \<and>
   fst (fullname (n\<lparr>priv_fullname := c\<rparr>)) = fst (fullname n) \<and>
   snd (fullname n) = n\<lparr>priv_fullname := Some (fst (fullname n))\<rparr> \<and>
   time_str (ca\<lparr>priv_designation := a, distance := b, velocity := v, neo := x\<rparr>) = time_str ca"
  by (simp add: fullname_value fullname_state time_str_def split: option.split)

text \<open>
  C10. Two \<open>CloseApproach\<close> objects that agree on time, distance, velocity and
  linked object give the same \<open>time_str\<close>, \<open>__str__\<close> and \<open>__repr__\<close>,
  whatever their internal designations are.
\<close>

theorem outputs_ignore_internal_designation:
  assumes "time a = time b" and "distance a = distance b" and "velocity a = velocity b"
    and "neo a = neo b"
  shows "time_str a = time_str b \<and> fst (CloseApproach_str a) = fst (CloseApproach_str b) \<and>
         CloseApproach_repr a = CloseApproach_repr b"
  using assms by (simp add: time_str_def CloseApproach_str_value CloseApproach_repr_def)

theorem outputs_ignore_internal_designation_witness:
  "priv_designation approach_1900 \<noteq> priv_designation (approach_1900\<lparr>priv_designation := ''1036''\<rparr>) \<and>
   time_str approach_1900 = time_str (approach_1900\<lparr>priv_designation := ''1036''\<rparr>) \<and>
   fst (CloseApproach_str approach_1900) =
     fst (CloseApproach_str (approach_1900\<lparr>priv_designation := ''1036''\<rparr>)) \<and>
   CloseApproach_repr approach_1900 =
     CloseApproach_repr (approach_1900\<lparr>priv_designation := ''1036''\<rparr>)"
  using outputs_ignore_internal_designation
    [of approach_1900 "approach_1900\<lparr>priv_designation := ''1036''\<rparr>"]
  by (simp add: approach_1900_def)

section \<open>The canonical time text\<close>

lemma digit_char_cases:
  "d mod 10 = 0 \<or> d mod 10 = 1 \<or> d mod 10 = 2 \<or> d mod 10 = 3 \<or> d mod 10 = 4 \<or>
   d mod 10 = 5 \<or> d mod 10 = 6 \<or> d mod 10 = 7 \<or> d mod 10 = 8 \<or> d mod 10 = (9::nat)"
  by arith

lemma digit_char_digit: "ascii_digit (digit_char d)"
  using digit_char_cases [of d] by (auto simp: ascii_digit_def digit_char_def)

lemma digit_val_digit_char: "digit_val (digit_char d) = d mod 10"
  using digit_char_cases [of d] by (auto simp: digit_val_def digit_char_def)

lemma decimal_all_digits: "list_all ascii_digit (decimal n)"
proof (induction n rule: decimal.induct)
  case (1 n)
  then show ?case
    by (subst decimal.simps) (simp add: digit_char_digit)
qed

lemma decimal_nonempty: "decimal n \<noteq> []"
  by (subst decimal.simps) simp

lemma decimal_length: "n < 10 ^ k \<Longrightarrow> 0 < k \<Longrightarrow> length (decimal n) \<le> k"
proof (induction n arbitrary: k rule: decimal.induct)
  case (1 n)
  show ?case
  proof (cases "n < 10")
    case True
    with "1.prems" show ?thesis
      by (subst decimal.simps) simp
  next
    case False
    from "1.prems" obtain j where k: "k = Suc j"
      by (cases k) auto
    from False "1.prems" k have j: "0 < j"
      by (cases j) auto
    from "1.prems" k have "n div 10 < 10 ^ j"
      by (simp add: less_mult_imp_div_less mult.commute)
    from "1.IH" [OF False this j] k False show ?thesis
      by (subst decimal.simps) simp
  qed
qed

lemma digits_val_snoc: "digits_val acc (xs @ [c]) = 10 * digits_val acc xs + digit_val c"
  by (induction xs arbitrary: acc) simp_all

lemma digits_val_decimal: "digits_val 0 (decimal n) = n"
proof (induction n rule: decimal.induct)
  case (1 n)
  show ?case
  proof (cases "n < 10")
    case True
    then show ?thesis
      by (subst decimal.simps) (simp add: digit_val_digit_char)
  next
    case False
    with "1.IH" show ?thesis
      by (subst decimal.simps) (simp add: digits_val_snoc digit_val_digit_char)
  qed
qed

lemma digits_val_zeros: "digits_val 0 (replicate k (CHR ''0'') @ s) = digits_val 0 s"
  by (induction k) (simp_all add: digit_val_def)

lemma digits_val_zero_pad: "digits_val 0 (zero_pad w (decimal n)) = n"
  by (simp add: zero_pad_def digits_val_zeros digits_val_decimal)

lemma replicate_zero_digits: "list_all ascii_digit (replicate k (CHR ''0''))"
  by (induction k) (simp_all add: ascii_digit_def)

lemma zero_pad_digits:
  assumes "n < 10 ^ w" and "0 < w"
  shows "length (zero_pad w (decimal n)) = w" and "list_all ascii_digit (zero_pad w (decimal n))"
  using decimal_length [OF assms] decimal_all_digits [of n]
  by (simp_all add: zero_pad_def replicate_zero_digits)

lemma four_chars: "length a = 4 \<Longrightarrow> \<exists>a1 a2 a3 a4. a = [a1, a2, a3, a4]"
  by (auto simp: eval_nat_numeral length_Suc_conv)

lemma two_chars: "length b = 2 \<Longrightarrow> \<exists>b1 b2. b = [b1, b2]"
  by (auto simp: eval_nat_numeral length_Suc_conv)

lemma time_text_fields:
  assumes "length a = 4" and "length b = 2" and "length c = 2" and "length d = 2"
    and "length e = 2"
  defines "s \<equiv> a @ ''-'' @ b @ ''-'' @ c @ '' '' @ d @ '':'' @ e"
  shows "take 4 s = a" and "take 2 (drop 5 s) = b" and "take 2 (drop 8 s) = c"
    and "take 2 (drop 11 s) = d" and "take 2 (drop 14 s) = e"
    and "list_all ascii_digit a \<Longrightarrow> list_all ascii_digit b \<Longrightarrow> list_all ascii_digit c \<Longrightarrow>
         list_all ascii_digit d \<Longrightarrow> list_all ascii_digit e \<Longrightarrow>
         matches ''dddd-dd-dd dd:dd'' s"
proof -
  from four_chars [OF assms(1)] obtain a1 a2 a3 a4 where a: "a = [a1, a2, a3, a4]"
    by blast
  from two_chars [OF assms(2)] obtain b1 b2 where b: "b = [b1, b2]"
    by blast
  from two_chars [OF assms(3)] obtain c1 c2 where c: "c = [c1, c2]"
    by blast
  from two_chars [OF assms(4)] obtain d1 d2 where d: "d = [d1, d2]"
    by blast
  from two_chars [OF assms(5)] obtain e1 e2 where e: "e = [e1, e2]"
    by blast
  show "take 4 s = a" and "take 2 (drop 5 s) = b" and "take 2 (drop 8 s) = c"
    and "take 2 (drop 11 s) = d" and "take 2 (drop 14 s) = e"
    by (simp_all add: s_def a b c d e)
  show "matches ''dddd-dd-dd dd:dd'' s"
    if "list_all ascii_digit a" "list_all ascii_digit b" "list_all ascii_digit c"
      "list_all ascii_digit d" "list_all ascii_digit e"
    using that by (simp add: s_def a b c d e)
qed

lemma datetime_to_str_no_seconds:
  "datetime_to_str (dt\<lparr>second := s, microsecond := u\<rparr>) = datetime_to_str dt"
  by (simp add: datetime_to_str_def)

lemma datetime_to_str_fields:
  assumes "valid_datetime dt"
  shows "matches ''dddd-dd-dd dd:dd'' (datetime_to_str dt)"
    and "digits_val 0 (take 4 (datetime_to_str dt)) = year dt"
    and "digits_val 0 (take 2 (drop 5 (datetime_to_str dt))) = month dt"
    and "digits_val 0 (take 2 (drop 8 (datetime_to_str dt))) = day dt"
    and "digits_val 0 (take 2 (drop 11 (datetime_to_str dt))) = hour dt"
    and "digits_val 0 (take 2 (drop 14 (datetime_to_str dt))) = minute dt"
proof -
  from assms have y: "year dt < 10 ^ 4" and m: "month dt < 10 ^ 2" and h: "hour dt < 10 ^ 2"
    and mi: "minute dt < 10 ^ 2"
    by (simp_all add: valid_datetime_def)
  from assms have "day dt \<le> 31"
    by (auto simp: valid_datetime_def days_in_month_def split: if_splits)
  then have d: "day dt < 10 ^ 2"
    by simp
  note ly = zero_pad_digits [OF y] and lm = zero_pad_digits [OF m]
    and ld = zero_pad_digits [OF d] and lh = zero_pad_digits [OF h]
    and lmi = zero_pad_digits [OF mi]
  note f = time_text_fields [OF ly(1) lm(1) ld(1) lh(1) lmi(1), simplified]
  show "matches ''dddd-dd-dd dd:dd'' (datetime_to_str dt)"
    unfolding datetime_to_str_def
    using time_text_fields(6) [OF ly(1) lm(1) ld(1) lh(1) lmi(1)] ly(2) lm(2) ld(2) lh(2) lmi(2)
    by simp
  show "digits_val 0 (take 4 (datetime_to_str dt)) = year dt"
    unfolding datetime_to_str_def
    using time_text_fields(1) [OF ly(1) lm(1) ld(1) lh(1) lmi(1)]
    by (simp add: digits_val_zero_pad)
  show "digits_val 0 (take 2 (drop 5 (datetime_to_str dt))) = month dt"
    unfolding datetime_to_str_def
    using time_text_fields(2) [OF ly(1) lm(1) ld(1) lh(1) lmi(1)]
    by (simp add: digits_val_zero_pad)
  show "digits_val 0 (take 2 (drop 8 (datetime_to_str dt))) = day dt"
    unfolding datetime_to_str_def
    using time_text_fields(3) [OF ly(1) lm(1) ld(1) lh(1) lmi(1)]
    by (simp add: digits_val_zero_pad)
  show "digits_val 0 (take 2 (drop 11 (datetime_to_str dt))) = hour dt"
    unfolding datetime_to_str_def
    using time_text_fields(4) [OF ly(1) lm(1) ld(1) lh(1) lmi(1)]
    by (simp add: digits_val_zero_pad)
  show "digits_val 0 (take 2 (drop 14 (datetime_to_str dt))) = minute dt"
    unfolding datetime_to_str_def
    using time_text_fields(5) [OF ly(1) lm(1) ld(1) lh(1) lmi(1)]
    by (simp add: digits_val_zero_pad)
qed

lemma approach_2020_valid: "valid_datetime (time approach_2020)"
  by (simp add: approach_2020_def valid_datetime_def days_in_month_def)

lemma time_str_approach_2020: "time_str approach_2020 = ''2020-03-07 23:45''"
  by code_simp

text \<open>
  C6. \<open>time_str\<close> of a \<open>CloseApproach\<close> formats the stored time as
  \<open>YYYY-MM-DD HH:MM\<close>: the text is four digits, two, two, a space, two digits, a colon
  and two digits, with nothing after, and the five groups of digits read as numbers are
  the year, the month, the day, the hour and the minute of the stored time, in this
  order. It does not change with the seconds and microseconds that the stored
  \<open>datetime\<close> carries.
\<close>

theorem time_str_has_no_seconds:
  assumes "valid_datetime (time ca)"
  shows "matches ''dddd-dd-dd dd:dd'' (time_str ca) \<and>
         digits_val 0 (take 4 (time_str ca)) = year (time ca) \<and>
         digits_val 0 (take 2 (drop 5 (time_str ca))) = month (time ca) \<and>
         digits_val 0 (take 2 (drop 8 (time_str ca))) = day (time ca) \<and>
         digits_val 0 (take 2 (drop 11 (time_str ca))) = hour (time ca) \<and>
         digits_val 0 (take 2 (drop 14 (time_str ca))) = minute (time ca) \<and>
         time_str (ca\<lparr>time := (time ca)\<lparr>second := s, microsecond := u\<rparr>\<rparr>) = time_str ca"
  using datetime_to_str_fields [OF assms]
  by (simp add: time_str_def datetime_to_str_no_seconds)

theorem time_str_has_no_seconds_witness:
  "valid_datetime (time approach_2020) \<and>
   second (time approach_2020) = 30 \<and>
   time_str approach_2020 = ''2020-03-07 23:45'' \<and>
   matches ''dddd-dd-dd dd:dd'' ''2020-03-07 23:45'' \<and>
   digits_val 0 (take 4 ''2020-03-07 23:45'') = 2020 \<and>
   digits_val 0 (take 2 (drop 5 ''2020-03-07 23:45'')) = 3 \<and>
   digits_val 0 (take 2 (drop 8 ''2020-03-07 23:45'')) = 7 \<and>
   digits_val 0 (take 2 (drop 11 ''2020-03-07 23:45'')) = 23 \<and>
   digits_val 0 (take 2 (drop 14 ''2020-03-07 23:45'')) = 45 \<and>
   time_str (approach_2020\<lparr>time := (time approach_2020)\<lparr>second := 0, microsecond := 0\<rparr>\<rparr>) =
     ''2020-03-07 23:45''"
proof -
  have f: "year (time approach_2020) = 2020" "month (time approach_2020) = 3"
    "day (time approach_2020) = 7" "hour (time approach_2020) = 23"
    "minute (time approach_2020) = 45" "second (time approach_2020) = 30"
    by (simp_all add: approach_2020_def)
  from time_str_has_no_seconds [OF approach_2020_valid, where s = 0 and u = 0]
  show ?thesis
    by (simp only: approach_2020_valid time_str_approach_2020 f simp_thms)
qed

section \<open>The description of a close approach\<close>

lemma not_digit_point: "\<not> ascii_digit (CHR ''.'')" and not_digit_minus: "\<not> ascii_digit (CHR ''-'')"
  by (simp_all add: ascii_digit_def)

lemma has_places_digits:
  assumes "list_all ascii_digit ip" and "ip \<noteq> []" and "list_all ascii_digit fp"
    and "length fp = p"
  shows "has_places p (ip @ CHR ''.'' # fp)" and "has_places p (CHR ''-'' # ip @ CHR ''.'' # fp)"
proof -
  from assms(1) have all: "\<And>x. x \<in> set ip \<Longrightarrow> ascii_digit x"
    by (simp add: list_all_iff)
  have tw: "takeWhile ascii_digit (ip @ CHR ''.'' # fp) = ip"
    using all by (simp add: takeWhile_append2 not_digit_point)
  have dw: "dropWhile ascii_digit (ip @ CHR ''.'' # fp) = CHR ''.'' # fp"
    using all by (simp add: dropWhile_append2 not_digit_point)
  from assms(2) obtain c cs where ip: "ip = c # cs"
    by (cases ip) auto
  with assms(1) have "ascii_digit c"
    by simp
  then have c: "c \<noteq> CHR ''-''"
    using not_digit_minus by auto
  have "has_places p ((c # cs) @ CHR ''.'' # fp)"
    using tw dw assms(2,3,4) c unfolding ip by (simp add: has_places_def)
  then show "has_places p (ip @ CHR ''.'' # fp)"
    by (simp add: ip)
  show "has_places p (CHR ''-'' # ip @ CHR ''.'' # fp)"
    using tw dw assms(2,3,4) by (simp add: has_places_def)
qed

lemma format_f_places:
  assumes "0 < p"
  shows "has_places p (format_f p (Finite s m e))"
proof -
  define n where "n = (if 0 \<le> e then m * 2 ^ nat e * 10 ^ p else rne (m * 10 ^ p) (2 ^ nat (- e)))"
  have lt: "n mod 10 ^ p < 10 ^ p"
    by simp
  have fp: "list_all ascii_digit (zero_pad p (decimal (n mod 10 ^ p)))"
    "length (zero_pad p (decimal (n mod 10 ^ p))) = p"
    using zero_pad_digits [OF lt assms] by simp_all
  have eq: "format_f p (Finite s m e) =
      (if s then ''-'' else []) @ decimal (n div 10 ^ p) @
      CHR ''.'' # zero_pad p (decimal (n mod 10 ^ p))"
    using assms by (simp add: format_f_def n_def Let_def)
  show ?thesis
    unfolding eq
    using has_places_digits [OF decimal_all_digits decimal_nonempty fp, of "n div 10 ^ p"]
    by (cases s) simp_all
qed

lemma format_distance_1900: "format_f 2 (Finite False 5404319552844595 (- 55)) = ''0.15''"
  by code_simp

lemma format_velocity_1900: "format_f 2 (Finite False 6192449487634432 (- 50)) = ''5.50''"
  by code_simp

lemma time_str_approach_1900: "time_str approach_1900 = ''1900-01-01 12:00''"
  by code_simp

lemma fullname_eros: "fst (fullname eros) = ''433 (Eros)''"
  by (simp add: fullname_value eros_def)

text \<open>
  C8. Reading the description of a \<open>CloseApproach\<close> that is not linked yet raises
  nothing: \<open>__str__\<close> returns the sentence with the literal \<open>None\<close> between the
  quotes; once linked, the full name of the linked object stands there. Distance and
  velocity are printed with \<open>.2f\<close>, which for a finite float is an optional sign,
  digits, a point and exactly two digits.
\<close>

theorem description_of_close_approach:
  "(neo ca = None \<longrightarrow>
      fst (CloseApproach_str ca) =
        ''At '' @ time_str ca @ '', 'None' approaches Earth at a distance of '' @
        format_f 2 (distance ca) @ '' au and a velocity of '' @
        format_f 2 (velocity ca) @ '' km/s.'') \<and>
   (neo ca = Some n \<longrightarrow>
      fst (CloseApproach_str ca) =
        ''At '' @ time_str ca @ '', '' @ [CHR 0x27] @ fst (fullname n) @ [CHR 0x27] @
        '' approaches Earth at a distance of '' @
        format_f 2 (distance ca) @ '' au and a velocity of '' @
        format_f 2 (velocity ca) @ '' km/s.'') \<and>
   (distance ca = Finite s m e \<longrightarrow> has_places 2 (format_f 2 (distance ca))) \<and>
   (velocity ca = Finite s' m' e' \<longrightarrow> has_places 2 (format_f 2 (velocity ca)))"
  using format_f_places [of 2 s m e] format_f_places [of 2 s' m' e']
  by (simp add: CloseApproach_str_value)

theorem description_of_close_approach_witness:
  "neo approach_1900 = None \<and>
   fst (CloseApproach_str approach_1900) =
     ''At 1900-01-01 12:00, 'None' approaches Earth at a distance of 0.15 au and a velocity of 5.50 km/s.'' \<and>
   neo (approach_1900\<lparr>neo := Some eros\<rparr>) = Some eros \<and>
   fst (CloseApproach_str (approach_1900\<lparr>neo := Some eros\<rparr>)) =
     ''At 1900-01-01 12:00, '433 (Eros)' approaches Earth at a distance of 0.15 au and a velocity of 5.50 km/s.'' \<and>
   has_places 2 ''0.15'' \<and> has_places 2 ''5.50''"
proof -
  have d: "distance approach_1900 = Finite False 5404319552844595 (- 55)"
    and v: "velocity approach_1900 = Finite False 6192449487634432 (- 50)"
    and u: "neo approach_1900 = None"
    by (simp_all add: approach_1900_def)
  have t: "time_str (approach_1900\<lparr>neo := Some eros\<rparr>) = time_str approach_1900"
    by (simp add: time_str_def)
  from description_of_close_approach
    [of approach_1900 eros False 5404319552844595 "- 55" False 6192449487634432 "- 50"]
    description_of_close_approach [of "approach_1900\<lparr>neo := Some eros\<rparr>" eros]
  show ?thesis
    using d v u t
    by (simp add: time_str_approach_1900 format_distance_1900 format_velocity_1900
        fullname_eros)
qed

section \<open>Errors of construction\<close>

lemma py_float_abc: "py_float ''abc'' = Inl (float_error ''abc'')"
  by code_simp

lemma cd_to_datetime_1900: "cd_to_datetime ''1900-Jan-01 12:00'' = Inr (time approach_1900)"
  by code_simp

lemma cd_to_datetime_bad: "cd_to_datetime ''Jan 1st'' = Inl (time_error ''Jan 1st'')"
  by code_simp

lemma errors_differ: "time_error ''Jan 1st'' \<noteq> float_error ''abc''"
  by (simp add: time_error_def float_error_def)

lemma approach_1900_constructed:
  "CloseApproach_init cd_to_datetime ''433'' ''1900-Jan-01 12:00'' ''0.15'' ''5.5'' =
     Inr approach_1900"
  by (simp add: CloseApproach_init_def cd_to_datetime_1900 py_float_0_15 py_float_5_5
      py_str_def approach_1900_def)

text \<open>
  C7, as the spec words it: construction raises exactly when a non-empty diameter,
  distance or velocity field cannot be parsed as a float. \<open>CloseApproach.__init__\<close>
  passes distance and velocity to \<open>float\<close> without looking at their length, and
  \<open>float\<close> rejects the empty text: with a well-formed time and velocity, an empty
  distance field raises \<open>ValueError\<close>.
\<close>

theorem empty_distance_raises:
  "CloseApproach_init cd_to_datetime ''433'' ''1900-Jan-01 12:00'' '''' ''5.5'' =
     Inl (float_error '''') \<and>
   cd_to_datetime ''1900-Jan-01 12:00'' = Inr (time approach_1900) \<and>
   py_float ''5.5'' = Inr (velocity approach_1900)"
  by (simp add: CloseApproach_init_def cd_to_datetime_1900 py_float_empty py_float_5_5
      approach_1900_def)

text \<open>
  C7, amended: constructing a \<open>NearEarthObject\<close> raises exactly when the diameter field
  is non-empty and \<open>float\<close> rejects it; constructing a \<open>CloseApproach\<close> raises
  exactly when the date parser rejects the time field or \<open>float\<close> rejects the distance
  or the velocity field, the empty text included. The exception the caller gets is the
  one of the first conversion that fails, with its message. An empty name field is no
  error and gives the name \<open>None\<close>, whatever the diameter field is; an empty diameter
  field is no error and gives the diameter not-a-number, whatever the name field is.
\<close>

theorem construction_errors:
  "(NearEarthObject_init d nm diam h = Inl err \<longleftrightarrow> diam \<noteq> [] \<and> py_float diam = Inl err) \<and>
   (CloseApproach_init parse_time d t dist vel = Inl err \<longleftrightarrow>
      parse_time t = Inl err \<or>
      (\<not> isl (parse_time t) \<and> py_float dist = Inl err) \<or>
      (\<not> isl (parse_time t) \<and> \<not> isl (py_float dist) \<and> py_float vel = Inl err)) \<and>
   (isl (CloseApproach_init parse_time d t dist vel) \<longleftrightarrow>
      isl (parse_time t) \<or> isl (py_float dist) \<or> isl (py_float vel)) \<and>
   py_float [] = Inl (float_error []) \<and>
   NearEarthObject_init d nm [] h =
     Inr \<lparr>designation = d, name = (if nm = [] then None else Some nm), diameter = NaN,
          hazardous = (h = ''Y''), approaches = [], priv_fullname = None\<rparr> \<and>
   (isl (NearEarthObject_init d [] diam h) \<longleftrightarrow> diam \<noteq> [] \<and> isl (py_float diam)) \<and>
   (NearEarthObject_init d [] diam h = Inr n \<longrightarrow>
      name n = None \<and> Inr (diameter n) = (if diam = [] then Inr NaN else py_float diam))"
proof -
  have a: "NearEarthObject_init d nm diam h = Inl err \<longleftrightarrow> diam \<noteq> [] \<and> py_float diam = Inl err"
    by (auto simp: NearEarthObject_init_def py_float_nan split: sum.splits)
  have b: "CloseApproach_init parse_time d t dist vel = Inl err \<longleftrightarrow>
      parse_time t = Inl err \<or>
      (\<not> isl (parse_time t) \<and> py_float dist = Inl err) \<or>
      (\<not> isl (parse_time t) \<and> \<not> isl (py_float dist) \<and> py_float vel = Inl err)"
    by (auto simp: CloseApproach_init_def split: sum.splits)
  have c: "isl (CloseApproach_init parse_time d t dist vel) \<longleftrightarrow>
      isl (parse_time t) \<or> isl (py_float dist) \<or> isl (py_float vel)"
    by (auto simp: CloseApproach_init_def split: sum.splits)
  have e: "NearEarthObject_init d nm [] h =
     Inr \<lparr>designation = d, name = (if nm = [] then None else Some nm), diameter = NaN,
          hazardous = (h = ''Y''), approaches = [], priv_fullname = None\<rparr>"
    by (simp add: NearEarthObject_init_def py_float_nan py_str_def)
  have f: "isl (NearEarthObject_init d [] diam h) \<longleftrightarrow> diam \<noteq> [] \<and> isl (py_float diam)"
    by (auto simp: NearEarthObject_init_def py_float_nan split: sum.splits)
  have g: "NearEarthObject_init d [] diam h = Inr n \<longrightarrow>
      name n = None \<and> Inr (diameter n) = (if diam = [] then Inr NaN else py_float diam)"
    using NearEarthObject_init_Inr [of d "[]" diam h n] by simp
  from a b c py_float_empty e f g show ?thesis
    by (simp only: simp_thms)
qed

theorem construction_errors_witness:
  "NearEarthObject_init ''433'' ''Eros'' ''abc'' ''N'' = Inl (float_error ''abc'') \<and>
   NearEarthObject_init ''433'' ''Eros'' ''16.84'' ''N'' = Inr eros \<and>
   CloseApproach_init cd_to_datetime ''433'' ''1900-Jan-01 12:00'' ''0.15'' ''abc'' =
     Inl (float_error ''abc'') \<and>
   CloseApproach_init cd_to_datetime ''433'' ''Jan 1st'' ''0.15'' ''abc'' =
     Inl (time_error ''Jan 1st'') \<and>
   time_error ''Jan 1st'' \<noteq> float_error ''abc'' \<and>
   CloseApproach_init cd_to_datetime ''433'' ''1900-Jan-01 12:00'' ''0.15'' ''5.5'' =
     Inr approach_1900 \<and>
   NearEarthObject_init ''433'' ''Eros'' '''' ''N'' = Inr (eros\<lparr>diameter := NaN\<rparr>) \<and>
   NearEarthObject_init ''2020 AB'' '''' ''16.84'' ''Y'' =
     Inr (neo_2020_AB\<lparr>diameter := Finite False 4740038607807447 (- 48)\<rparr>) \<and>
   name (neo_2020_AB\<lparr>diameter := Finite False 4740038607807447 (- 48)\<rparr>) = None"
proof -
  have k: "NearEarthObject_init ''2020 AB'' '''' ''16.84'' ''Y'' =
     Inr (neo_2020_AB\<lparr>diameter := Finite False 4740038607807447 (- 48)\<rparr>)"
    by (simp add: NearEarthObject_init_def py_float_16_84 py_str_def neo_2020_AB_def)
  from construction_errors
    [of "''433''" "''Eros''" "''abc''" "''N''" "float_error ''abc''" cd_to_datetime
      "''1900-Jan-01 12:00''" "''0.15''" "''abc''"]
  have a: "NearEarthObject_init ''433'' ''Eros'' ''abc'' ''N'' = Inl (float_error ''abc'')"
    and b: "CloseApproach_init cd_to_datetime ''433'' ''1900-Jan-01 12:00'' ''0.15'' ''abc'' =
      Inl (float_error ''abc'')"
    and e: "NearEarthObject_init ''433'' ''Eros'' '''' ''N'' = Inr (eros\<lparr>diameter := NaN\<rparr>)"
    by (simp_all add: py_float_abc py_float_0_15 cd_to_datetime_1900 eros_def)
  from construction_errors
    [of "''433''" "''Eros''" "''abc''" "''N''" "time_error ''Jan 1st''" cd_to_datetime
      "''Jan 1st''" "''0.15''" "''abc''"]
  have c: "CloseApproach_init cd_to_datetime ''433'' ''Jan 1st'' ''0.15'' ''abc'' =
      Inl (time_error ''Jan 1st'')"
    by (simp add: cd_to_datetime_bad)
  from construction_errors
    [of "''2020 AB''" "''''" "''16.84''" "''Y''" "float_error ''abc''" cd_to_datetime
      "''Jan 1st''" "''0.15''" "''abc''"
      "neo_2020_AB\<lparr>diameter := Finite False 4740038607807447 (- 48)\<rparr>"]
  have g: "name (neo_2020_AB\<lparr>diameter := Finite False 4740038607807447 (- 48)\<rparr>) = None"
    by (simp add: k)
  from a b c e g k errors_differ eros_constructed approach_1900_constructed
  show ?thesis
    by simp
qed

end
